theory Spec2Isabelle
  imports Main
begin

section \<open>Cell values of a decoded sheet row\<close>

text \<open>
  A row coming out of \<^verbatim>\<open>utils.sheet_to_json\<close> is an object whose properties hold the
  cell values. A blank cell leaves its property out, so every field can be absent at run
  time, whatever the interface \<^verbatim>\<open>RawJobData\<close> declares. A populated cell is a string, a
  number or a boolean; a \<^typ>\<open>char\<close> stands for one code unit of a JavaScript string.

  A number is a double, and the hook reads two things of a numeric cell: whether it is
  truthy, and the text that \<^verbatim>\<open>Number.prototype.toString\<close> prints for it.
  \<^item> \<open>Number n\<close> is a numeric cell whose value is the safe integer \<open>n\<close>, of magnitude at
    most \<open>2^53 - 1\<close> (both zeros are \<open>0\<close>); it is printed in plain decimal digits.
  \<^item> \<open>OtherNumber p\<close> is any other numeric cell (a fraction, a magnitude from \<open>2^53\<close> on,
    an infinity, \<^verbatim>\<open>NaN\<close>), given by the text \<open>p\<close> that is printed for it, such as
    \<^verbatim>\<open>50000.5\<close> or \<^verbatim>\<open>1e+21\<close>; the text is never empty, and only \<^verbatim>\<open>NaN\<close> is falsy. A text
    that no number prints stands for no cell.
\<close>

typedef safe_integer = "{n :: int. \<bar>n\<bar> \<le> 2 ^ 53 - 1}"
  morphisms int_of safe
  by (rule exI [of _ 0]) simp

setup_lifting type_definition_safe_integer

instantiation safe_integer :: zero
begin
lift_definition zero_safe_integer :: safe_integer is 0
  by simp
instance ..
end

typedef printed_number = "{s :: string. s \<noteq> []}"
  morphisms printed_text printed
  by (rule exI [of _ "''NaN''"]) simp

setup_lifting type_definition_printed_number

datatype cell =
  Absent | Text string | Number safe_integer | OtherNumber printed_number | Boolean bool

datatype js_error = TypeError

text \<open>JavaScript truthiness, as tested by \<^verbatim>\<open>!row.ID\<close>.\<close>

fun truthy :: "cell \<Rightarrow> bool" where
  "truthy Absent = False"
| "truthy (Text s) = (s \<noteq> [])"
| "truthy (Number n) = (int_of n \<noteq> 0)"
| "truthy (OtherNumber p) = (printed_text p \<noteq> ''NaN'')"
| "truthy (Boolean b) = b"

definition digit_char :: "nat \<Rightarrow> char" where
  "digit_char d = char_of (48 + d)"

function dec_digits :: "int \<Rightarrow> string" where
  "dec_digits n =
     (if n < 10 then [digit_char (nat n)]
      else dec_digits (n div 10) @ [digit_char (nat (n mod 10))])"
  by pat_completeness auto
termination
  by (relation "measure nat") auto

declare dec_digits.simps [simp del]

text \<open>The decimal numeral of an integer.\<close>

definition int_text :: "int \<Rightarrow> string" where
  "int_text n = (if n < 0 then CHR ''-'' # dec_digits (- n) else dec_digits n)"

text \<open>The text of a populated cell: the result of its \<^verbatim>\<open>toString()\<close>.\<close>

fun cell_text :: "cell \<Rightarrow> string" where
  "cell_text Absent = []"
| "cell_text (Text s) = s"
| "cell_text (Number n) = int_text (int_of n)"
| "cell_text (OtherNumber p) = printed_text p"
| "cell_text (Boolean b) = (if b then ''true'' else ''false'')"

text \<open>\<^verbatim>\<open>row.F.toString()\<close>: reading a property of \<^verbatim>\<open>undefined\<close> throws a TypeError.\<close>

definition toString :: "cell \<Rightarrow> js_error + string" where
  "toString v = (case v of Absent \<Rightarrow> Inl TypeError | _ \<Rightarrow> Inr (cell_text v))"

text \<open>\<^verbatim>\<open>row.F?.toString()\<close>: the optional chain yields \<^verbatim>\<open>undefined\<close> for an absent cell.\<close>

definition toString_opt :: "cell \<Rightarrow> string option" where
  "toString_opt v = (case v of Absent \<Rightarrow> None | _ \<Rightarrow> Some (cell_text v))"

text \<open>\<^verbatim>\<open>x || d\<close> on a string-or-undefined \<open>x\<close>: \<^verbatim>\<open>undefined\<close> and the empty string are falsy.\<close>

definition or_default :: "string option \<Rightarrow> string \<Rightarrow> string" where
  "or_default x d = (case x of None \<Rightarrow> d | Some s \<Rightarrow> if s = [] then d else s)"

definition bind_err :: "'e + 'a \<Rightarrow> ('a \<Rightarrow> 'e + 'b) \<Rightarrow> 'e + 'b" where
  "bind_err m f = (case m of Inl e \<Rightarrow> Inl e | Inr x \<Rightarrow> f x)"

section \<open>Library functions of the runtime\<close>

subsection \<open>\<^verbatim>\<open>String.prototype.split\<close> with a one-character separator\<close>

fun js_split :: "char \<Rightarrow> string \<Rightarrow> string list" where
  "js_split c [] = [[]]"
| "js_split c (x # xs) =
     (if x = c then [] # js_split c xs
      else (case js_split c xs of [] \<Rightarrow> [[x]] | seg # segs \<Rightarrow> (x # seg) # segs))"

definition newline :: char where
  "newline = CHR 0x0A"

subsection \<open>\<^verbatim>\<open>parseInt(s, 10)\<close>\<close>

text \<open>
  The result of \<^verbatim>\<open>parseInt\<close> is a number: \<^verbatim>\<open>NaN\<close>, an infinity, or a double whose value
  is an integer.
\<close>

datatype js_number = NaN | Finite int | PosInfinity | NegInfinity

text \<open>
  The double nearest to an integer that is not negative, ties going to the even
  significand: a number of at most 53 bits is a double; a longer one keeps its 53
  leading bits, rounded. From \<open>2^1024\<close> on the result is an infinity.
\<close>

function bit_length :: "int \<Rightarrow> nat" where
  "bit_length n = (if n \<le> 0 then 0 else Suc (bit_length (n div 2)))"
  by pat_completeness auto
termination
  by (relation "measure nat") auto

declare bit_length.simps [simp del]

definition round_to_double :: "int \<Rightarrow> int" where
  "round_to_double m =
     (if bit_length m \<le> 53 then m
      else let e = bit_length m - 53; q = m div 2 ^ e; r = m mod 2 ^ e; h = 2 ^ (e - 1)
           in (if h < r \<or> (r = h \<and> odd q) then q + 1 else q) * 2 ^ e)"

definition double_overflow :: int where
  "double_overflow = 2 ^ 1024"

definition to_double :: "int \<Rightarrow> js_number" where
  "to_double n =
     (let m = round_to_double \<bar>n\<bar>
      in if double_overflow \<le> m then (if n < 0 then NegInfinity else PosInfinity)
         else Finite (if n < 0 then - m else m))"

text \<open>
  \<^verbatim>\<open>parseInt\<close> skips leading white space, reads an optional sign, then the longest run of
  decimal digits; with no digit there the result is \<^verbatim>\<open>NaN\<close>. What follows the digits is
  ignored. The result is the double nearest to the integer that the digits denote, with
  the sign (a negative zero is not told from zero here: both are falsy, and the hook
  replaces either by \<^verbatim>\<open>0\<close>).
\<close>

definition is_js_space :: "char \<Rightarrow> bool" where
  "is_js_space c = (of_char c \<in> {9, 10, 11, 12, 13, 32, 160 :: nat})"

definition is_digit :: "char \<Rightarrow> bool" where
  "is_digit c = (48 \<le> (of_char c :: nat) \<and> (of_char c :: nat) \<le> 57)"

definition digit_val :: "char \<Rightarrow> int" where
  "digit_val c = int (of_char c) - 48"

definition digits_value :: "string \<Rightarrow> int" where
  "digits_value ds = foldl (\<lambda>a c. 10 * a + digit_val c) 0 ds"

definition parseInt :: "string \<Rightarrow> js_number" where
  "parseInt s =
     (let s1 = dropWhile is_js_space s;
          sgn = (case s1 of c # _ \<Rightarrow> if c = CHR ''-'' then - 1 else 1 | [] \<Rightarrow> 1);
          s2 = (case s1 of c # r \<Rightarrow> if c = CHR ''-'' \<or> c = CHR ''+'' then r else s1 | [] \<Rightarrow> s1);
          ds = takeWhile is_digit s2
      in if ds = [] then NaN else to_double (sgn * digits_value ds))"

text \<open>\<^verbatim>\<open>parseInt(s, 10) || 0\<close>: \<^verbatim>\<open>NaN\<close> and zero are falsy.\<close>

definition or_zero :: "js_number \<Rightarrow> js_number" where
  "or_zero r = (case r of NaN \<Rightarrow> Finite 0 | Finite n \<Rightarrow> if n = 0 then Finite 0 else Finite n
                | PosInfinity \<Rightarrow> PosInfinity | NegInfinity \<Rightarrow> NegInfinity)"

subsection \<open>\<^verbatim>\<open>new Date(s)\<close>\<close>

text \<open>
  \<^verbatim>\<open>Date.parse\<close> must accept the date-time string format of the language standard; what it
  does with any other string is left to the engine. The date-only forms of that format
  (\<^verbatim>\<open>YYYY\<close>, \<^verbatim>\<open>YYYY-MM\<close>, \<^verbatim>\<open>YYYY-MM-DD\<close>, with a month and a day that exist) are written out
  here; every other string is decided by the parameter \<open>legacy\<close>, the engine's own parser.
\<close>

definition two_digits :: "char \<Rightarrow> char \<Rightarrow> nat" where
  "two_digits a b = 10 * (of_char a - 48) + (of_char b - 48)"

definition year_of :: "char \<Rightarrow> char \<Rightarrow> char \<Rightarrow> char \<Rightarrow> nat" where
  "year_of a b c d = 100 * two_digits a b + two_digits c d"

definition leap_year :: "nat \<Rightarrow> bool" where
  "leap_year y = (y mod 4 = 0 \<and> (y mod 100 \<noteq> 0 \<or> y mod 400 = 0))"

definition days_in_month :: "nat \<Rightarrow> nat \<Rightarrow> nat" where
  "days_in_month y m =
     (if m = 2 then (if leap_year y then 29 else 28)
      else if m \<in> {4, 6, 9, 11} then 30 else 31)"

fun es_date_only :: "string \<Rightarrow> bool" where
  "es_date_only [y1, y2, y3, y4] = (is_digit y1 \<and> is_digit y2 \<and> is_digit y3 \<and> is_digit y4)"
| "es_date_only [y1, y2, y3, y4, h1, m1, m2] =
     (is_digit y1 \<and> is_digit y2 \<and> is_digit y3 \<and> is_digit y4 \<and> h1 = CHR ''-'' \<and>
      is_digit m1 \<and> is_digit m2 \<and> 1 \<le> two_digits m1 m2 \<and> two_digits m1 m2 \<le> 12)"
| "es_date_only [y1, y2, y3, y4, h1, m1, m2, h2, d1, d2] =
     (is_digit y1 \<and> is_digit y2 \<and> is_digit y3 \<and> is_digit y4 \<and> h1 = CHR ''-'' \<and>
      is_digit m1 \<and> is_digit m2 \<and> 1 \<le> two_digits m1 m2 \<and> two_digits m1 m2 \<le> 12 \<and>
      h2 = CHR ''-'' \<and> is_digit d1 \<and> is_digit d2 \<and> 1 \<le> two_digits d1 d2 \<and>
      two_digits d1 d2 \<le> days_in_month (year_of y1 y2 y3 y4) (two_digits m1 m2))"
| "es_date_only s = False"

text \<open>
  Whether \<^verbatim>\<open>new Date(x)\<close> has a time value other than \<^verbatim>\<open>NaN\<close>. An \<^verbatim>\<open>undefined\<close> argument is
  converted to the number \<^verbatim>\<open>NaN\<close>, so the date is invalid.
\<close>

definition date_has_time :: "(string \<Rightarrow> bool) \<Rightarrow> string option \<Rightarrow> bool" where
  "date_has_time legacy x =
     (case x of None \<Rightarrow> False | Some s \<Rightarrow> es_date_only s \<or> legacy s)"

section \<open>The hook \<^verbatim>\<open>useJobs\<close>\<close>

subsection \<open>Rows and jobs\<close>

record RawJobData =
  ID :: cell
  Title :: cell
  Company :: cell
  Location :: cell
  Type :: cell
  Description :: cell
  Requirements :: cell
  SalaryMin :: cell
  SalaryMax :: cell
  SalaryCurrency :: cell
  PostedDate :: cell
  ApplicationUrl :: cell
  CompanyLogo :: cell

text \<open>
  Modelled from the spec: the type \<^verbatim>\<open>Job\<close>, which the hook imports from \<^verbatim>\<open>../types/job\<close>,
  a file that is not among the sources. Its fields are those of the data model of the
  specification, which are those of the object literal that \<^verbatim>\<open>validateAndParseJob\<close> builds
  (\<^verbatim>\<open>id\<close>, \<^verbatim>\<open>type\<close>, \<^verbatim>\<open>min\<close> and \<^verbatim>\<open>max\<close> carry a suffix here). The cast of \<^verbatim>\<open>type\<close> to the
  union of four literals is erased at run time, so the field holds whatever string the
  row gave.
\<close>

record Salary =
  min_salary :: js_number
  max_salary :: js_number
  currency :: string

record Job =
  id_job :: string
  title :: string
  company :: string
  location :: string
  type_job :: string
  description :: string
  requirements :: "string list"
  salary :: Salary
  postedDate :: string
  applicationUrl :: string
  companyLogo :: string

subsection \<open>\<^verbatim>\<open>isValidDate\<close>\<close>

text \<open>
  The constructor \<^verbatim>\<open>new Date(dateString)\<close> does not throw, so the \<^verbatim>\<open>catch\<close> branch is never
  taken; the result is whether the time value is a number.
\<close>

definition isValidDate :: "(string \<Rightarrow> bool) \<Rightarrow> string option \<Rightarrow> bool" where
  "isValidDate legacy dateString = date_has_time legacy dateString"

subsection \<open>\<^verbatim>\<open>validateAndParseJob\<close>\<close>

text \<open>
  \<open>now\<close> is the string that \<^verbatim>\<open>new Date().toISOString()\<close> returns when the row is validated.
  \<open>todayOf now\<close> is \<^verbatim>\<open>now.split('T')[0]\<close>; the array that \<^verbatim>\<open>split\<close> returns is never empty,
  so its element 0 is always a string.
\<close>

definition todayOf :: "string \<Rightarrow> string" where
  "todayOf now = (case js_split (CHR ''T'') now of [] \<Rightarrow> [] | d # _ \<Rightarrow> d)"

definition placeholderLogo :: string where
  "placeholderLogo =
     ''https://images.unsplash.com/photo-1560179707-f14e90ef3623?w=100&h=100&fit=crop''"

text \<open>
  The statements after the required-field check, in the order in which the source
  evaluates them; the first \<^verbatim>\<open>toString\<close> of an absent cell throws.
\<close>

definition buildJob :: "(string \<Rightarrow> bool) \<Rightarrow> string \<Rightarrow> RawJobData \<Rightarrow> js_error + Job" where
  "buildJob legacy now row =
     bind_err
       (if isValidDate legacy (toString_opt (PostedDate row))
        then toString (PostedDate row)
        else Inr (todayOf now))
       (\<lambda>pd.
     bind_err (toString (ID row)) (\<lambda>i.
     bind_err (toString (Title row)) (\<lambda>t.
     bind_err (toString (Company row)) (\<lambda>c.
     bind_err (toString (Location row)) (\<lambda>l.
     bind_err (toString (Description row)) (\<lambda>d.
     bind_err (toString (Requirements row)) (\<lambda>r.
     bind_err (toString (SalaryMin row)) (\<lambda>smin.
     bind_err (toString (SalaryMax row)) (\<lambda>smax.
       Inr \<lparr> id_job = i,
             title = t,
             company = c,
             location = l,
             type_job = or_default (toString_opt (Type row)) ''FULL_TIME'',
             description = d,
             requirements = filter (\<lambda>seg. seg \<noteq> []) (js_split newline r),
             salary = \<lparr> min_salary = or_zero (parseInt smin),
                        max_salary = or_zero (parseInt smax),
                        currency = or_default (toString_opt (SalaryCurrency row)) ''USD'' \<rparr>,
             postedDate = pd,
             applicationUrl = or_default (toString_opt (ApplicationUrl row)) ''#'',
             companyLogo = or_default (toString_opt (CompanyLogo row)) placeholderLogo \<rparr>)))))))))"

text \<open>The body of the \<^verbatim>\<open>try\<close> block: \<open>Inr None\<close> is \<^verbatim>\<open>return null\<close>, \<open>Inl\<close> a thrown error.\<close>

definition tryBody :: "(string \<Rightarrow> bool) \<Rightarrow> string \<Rightarrow> RawJobData \<Rightarrow> js_error + Job option" where
  "tryBody legacy now row =
     (if \<not> truthy (ID row) \<or> \<not> truthy (Title row) \<or> \<not> truthy (Company row) then Inr None
      else bind_err (buildJob legacy now row) (\<lambda>job. Inr (Some job)))"

text \<open>The \<^verbatim>\<open>catch\<close> block logs the error and returns \<^verbatim>\<open>null\<close>.\<close>

definition validateAndParseJob :: "(string \<Rightarrow> bool) \<Rightarrow> string \<Rightarrow> RawJobData \<Rightarrow> Job option" where
  "validateAndParseJob legacy now row =
     (case tryBody legacy now row of Inl e \<Rightarrow> None | Inr r \<Rightarrow> r)"

subsection \<open>\<^verbatim>\<open>fetchJobs\<close>\<close>

text \<open>
  \<open>clock i\<close> is the reading of the clock when the row at index \<open>i\<close> is validated.
  \<^verbatim>\<open>jsonData.map(validateAndParseJob).filter(job => job !== null)\<close>:
\<close>

definition mappedRows :: "(string \<Rightarrow> bool) \<Rightarrow> (nat \<Rightarrow> string) \<Rightarrow> RawJobData list \<Rightarrow> Job option list" where
  "mappedRows legacy clock jsonData =
     map (\<lambda>(i, row). validateAndParseJob legacy (clock i) row) (enumerate 0 jsonData)"

definition parsedJobs :: "(string \<Rightarrow> bool) \<Rightarrow> (nat \<Rightarrow> string) \<Rightarrow> RawJobData list \<Rightarrow> Job list" where
  "parsedJobs legacy clock jsonData =
     map the (filter (\<lambda>job. job \<noteq> None) (mappedRows legacy clock jsonData))"

text \<open>
  What a \<^verbatim>\<open>throw\<close> or a rejected promise carries: an \<^verbatim>\<open>Error\<close> with its message, or some
  other value. The collaborators \<^verbatim>\<open>fetch\<close>, \<^verbatim>\<open>read\<close> and \<^verbatim>\<open>utils.sheet_to_json\<close> are
  parameters; each returns or throws.
\<close>

datatype thrown = ErrorObj string | NotAnError

record 'b response =
  ok :: bool
  arrayBuffer :: "thrown + 'b"

record 's workbook =
  SheetNames :: "string list"
  Sheets :: "string \<Rightarrow> 's option"

record hook_state =
  jobs :: "Job list"
  loading :: bool
  error :: "string option"

definition initial_state :: hook_state where
  "initial_state = \<lparr> jobs = [], loading = True, error = None \<rparr>"

definition fetchBody ::
  "(string \<Rightarrow> bool) \<Rightarrow> (nat \<Rightarrow> string) \<Rightarrow> thrown + 'b response \<Rightarrow> ('b \<Rightarrow> thrown + 's workbook) \<Rightarrow>
   ('s option \<Rightarrow> thrown + RawJobData list) \<Rightarrow> thrown + Job list" where
  "fetchBody legacy clock fetch read sheet_to_json =
     bind_err fetch (\<lambda>resp.
       if \<not> ok resp then Inl (ErrorObj ''Failed to fetch jobs file'')
       else
     bind_err (arrayBuffer resp) (\<lambda>buf.
     bind_err (read buf) (\<lambda>wb.
       if length (SheetNames wb) = 0 then Inl (ErrorObj ''Excel file is empty'')
       else
     bind_err (sheet_to_json (Sheets wb (hd (SheetNames wb)))) (\<lambda>jsonData.
       let parsed = parsedJobs legacy clock jsonData
       in if length parsed = 0 then Inl (ErrorObj ''No valid jobs found in the file'')
          else Inr parsed))))"

definition fetchJobs ::
  "(string \<Rightarrow> bool) \<Rightarrow> (nat \<Rightarrow> string) \<Rightarrow> thrown + 'b response \<Rightarrow> ('b \<Rightarrow> thrown + 's workbook) \<Rightarrow>
   ('s option \<Rightarrow> thrown + RawJobData list) \<Rightarrow> hook_state \<Rightarrow> hook_state" where
  "fetchJobs legacy clock fetch read sheet_to_json st =
     (case fetchBody legacy clock fetch read sheet_to_json of
        Inr parsed \<Rightarrow> st\<lparr> jobs := parsed, loading := False \<rparr>
      | Inl err \<Rightarrow>
          st\<lparr> error := Some (case err of ErrorObj message \<Rightarrow> message
                                         | NotAnError \<Rightarrow> ''Failed to fetch jobs''),
              loading := False \<rparr>)"

section \<open>Vocabulary of the specification\<close>

text \<open>\<^verbatim>\<open>Array.prototype.join\<close> with a one-character separator, the inverse of splitting.\<close>

fun join_with :: "char \<Rightarrow> string list \<Rightarrow> string" where
  "join_with c [] = []"
| "join_with c [s] = s"
| "join_with c (s # t # ts) = s @ c # join_with c (t # ts)"




definition job_types :: "string list" where
  "job_types = [''FULL_TIME'', ''PART_TIME'', ''CONTRACT'', ''FREELANCE'']"

text \<open>
  The Decoder of the specification: the bytes are read into a workbook, the first sheet
  is taken by position and converted to rows. It fails with a decode error when reading
  or converting throws, and with an empty-workbook error when there is no sheet.
\<close>

datatype decoded = DecodeError | EmptyWorkbookError | Rows "RawJobData list"

definition spec_decode ::
  "('b \<Rightarrow> thrown + 's workbook) \<Rightarrow> ('s option \<Rightarrow> thrown + RawJobData list) \<Rightarrow> 'b \<Rightarrow> decoded" where
  "spec_decode read sheet_to_json buf =
     (case read buf of
        Inl e \<Rightarrow> DecodeError
      | Inr wb \<Rightarrow>
          (case SheetNames wb of
             [] \<Rightarrow> EmptyWorkbookError
           | first # _ \<Rightarrow>
               (case sheet_to_json (Sheets wb first) of
                  Inl e \<Rightarrow> DecodeError
                | Inr rows \<Rightarrow> Rows rows)))"

text \<open>
  The bytes that the fetch delivers, when it does: the promise resolves, the response is
  ok and its body can be read.
\<close>

definition acquired :: "thrown + 'b response \<Rightarrow> 'b option" where
  "acquired fetch =
     (case fetch of
        Inl e \<Rightarrow> None
      | Inr resp \<Rightarrow>
          if ok resp then (case arrayBuffer resp of Inl e \<Rightarrow> None | Inr buf \<Rightarrow> Some buf)
          else None)"

text \<open>
  The outcome of the validator for every decoded row, in the order of the rows: the row
  at index \<open>i\<close> is validated when the clock reads \<open>clock i\<close>. A row survives when its
  outcome is a job.
\<close>

definition row_outcomes ::
  "(string \<Rightarrow> bool) \<Rightarrow> (nat \<Rightarrow> string) \<Rightarrow> RawJobData list \<Rightarrow> Job option list" where
  "row_outcomes legacy clock rows =
     map (\<lambda>i. validateAndParseJob legacy (clock i) (rows ! i)) [0..<length rows]"

section \<open>Sample inputs\<close>

text \<open>An engine whose parser accepts nothing beyond the standard format, and a clock reading.\<close>

definition strict_engine :: "string \<Rightarrow> bool" where
  "strict_engine s = False"

definition sample_now :: string where
  "sample_now = ''2026-11-03T12:00:00.000Z''"

lift_definition sample_id :: safe_integer is 7
  by simp

lift_definition sample_fraction :: printed_number is "''50000.5''"
  by simp

definition sample_row :: RawJobData where
  "sample_row =
     \<lparr> ID = Number sample_id, Title = Text ''Engineer'', Company = Text ''Acme'',
       Location = Text ''Paris'', Type = Text ''CONTRACT'', Description = Text ''Builds things'',
       Requirements = Text (''A'' @ [newline] @ ''B'' @ [newline, newline] @ ''C''),
       SalaryMin = Text ''50000'', SalaryMax = Text '''', SalaryCurrency = Absent,
       PostedDate = Text ''2024-03-01'', ApplicationUrl = Absent, CompanyLogo = Absent \<rparr>"

definition sample_clock :: "nat \<Rightarrow> string" where
  "sample_clock i = sample_now"

definition row_empty_title :: RawJobData where
  "row_empty_title = sample_row\<lparr> Title := Text '''' \<rparr>"

definition row_id_zero :: RawJobData where
  "row_id_zero = sample_row\<lparr> ID := Number 0 \<rparr>"

definition row_no_location :: RawJobData where
  "row_no_location = sample_row\<lparr> Location := Absent \<rparr>"

definition row_no_salary_min :: RawJobData where
  "row_no_salary_min = sample_row\<lparr> SalaryMin := Absent \<rparr>"

definition row_invalid_type :: RawJobData where
  "row_invalid_type = sample_row\<lparr> Type := Text ''INVALID_TYPE'' \<rparr>"


definition row_not_a_date :: RawJobData where
  "row_not_a_date = sample_row\<lparr> PostedDate := Text ''not-a-date'', SalaryMin := Text ''abc'' \<rparr>"


definition row_no_type :: RawJobData where
  "row_no_type = sample_row\<lparr> Type := Absent \<rparr>"

text \<open>A workbook of one sheet with two rows, the first of them without a Location.\<close>

definition sample_response :: "string response" where
  "sample_response = \<lparr> ok = True, arrayBuffer = Inr ''bytes'' \<rparr>"

definition sample_read :: "string \<Rightarrow> thrown + (RawJobData list) workbook" where
  "sample_read buf =
     Inr \<lparr> SheetNames = [''Jobs''],
           Sheets = (\<lambda>name. if name = ''Jobs'' then Some [row_no_location, sample_row] else None) \<rparr>"

definition sample_sheet_to_json :: "RawJobData list option \<Rightarrow> thrown + RawJobData list" where
  "sample_sheet_to_json sheet = (case sheet of None \<Rightarrow> Inr [] | Some rows \<Rightarrow> Inr rows)"

text \<open>A response that is not ok, over the same bytes.\<close>

definition sample_response_not_ok :: "string response" where
  "sample_response_not_ok = \<lparr> ok = False, arrayBuffer = Inr ''bytes'' \<rparr>"

section \<open>Basic facts\<close>

lemma dec_digits_not_Nil: "dec_digits n \<noteq> []"
  by (subst dec_digits.simps) simp

lemma int_text_not_Nil: "int_text n \<noteq> []"
  by (simp add: int_text_def dec_digits_not_Nil)

lemma printed_text_not_Nil: "printed_text p \<noteq> []"
  using printed_text [of p] by simp

lemma int_of_bound: "\<bar>int_of k\<bar> < 2 ^ 53"
  using int_of [of k] by simp

lemma int_of_zero [simp]: "int_of 0 = 0"
  by (rule zero_safe_integer.rep_eq)

lemma int_of_sample_id [simp]: "int_of sample_id = 7"
  by (rule sample_id.rep_eq)

lemma printed_text_sample_fraction [simp]: "printed_text sample_fraction = ''50000.5''"
  by (rule sample_fraction.rep_eq)

lemma empty_text_falsy: "cell_text v = [] \<Longrightarrow> \<not> truthy v"
  by (cases v) (auto simp add: int_text_not_Nil printed_text_not_Nil split: if_splits)

lemma bit_length_le: "m < 2 ^ k \<Longrightarrow> bit_length m \<le> k"
proof (induction k arbitrary: m)
  case 0
  then show ?case by (simp add: bit_length.simps)
next
  case (Suc k)
  then have "m div 2 < 2 ^ k" by simp
  then have "bit_length (m div 2) \<le> k" by (rule Suc.IH)
  then show ?case by (subst bit_length.simps) simp
qed

lemma below_overflow: "m < 2 ^ k \<Longrightarrow> k \<le> 1024 \<Longrightarrow> \<not> double_overflow \<le> m"
proof -
  assume a: "m < 2 ^ k" and k: "k \<le> 1024"
  have "(2::int) ^ k \<le> 2 ^ 1024" using k by (intro power_increasing) simp_all
  with a have "m < 2 ^ 1024" by (rule less_le_trans)
  then show ?thesis by (simp only: double_overflow_def not_le)
qed

lemma to_double_safe: "\<bar>n\<bar> < 2 ^ 53 \<Longrightarrow> to_double n = Finite n"
proof -
  assume lt: "\<bar>n\<bar> < 2 ^ 53"
  then have r: "round_to_double \<bar>n\<bar> = \<bar>n\<bar>"
    by (simp add: round_to_double_def bit_length_le)
  have no: "\<not> double_overflow \<le> \<bar>n\<bar>" using lt by (rule below_overflow) simp
  have "(if n < 0 then - \<bar>n\<bar> else \<bar>n\<bar>) = n" by simp
  then show ?thesis
    unfolding to_double_def r Let_def by (simp only: no if_False)
qed

text \<open>From \<open>2^1024\<close> on, the nearest double is an infinity.\<close>

lemma bit_length_gt: "2 ^ k \<le> m \<Longrightarrow> k < bit_length m"
proof (induction k arbitrary: m)
  case 0
  then show ?case by (subst bit_length.simps) simp
next
  case (Suc k)
  then have "2 ^ k \<le> m div 2" by simp
  then have "k < bit_length (m div 2)" by (rule Suc.IH)
  moreover have "(0::int) < 2 ^ Suc k" by simp
  with Suc.prems have "0 < m" by linarith
  ultimately show ?case by (subst bit_length.simps) simp
qed

lemma bit_length_lower: "0 < m \<Longrightarrow> 2 ^ (bit_length m - 1) \<le> m"
proof (induction m rule: bit_length.induct)
  case (1 n)
  show ?case
  proof (cases "n div 2 = 0")
    case True
    with 1(2) have "bit_length n = 1"
      by (subst bit_length.simps) (simp add: bit_length.simps [of 0])
    with 1(2) show ?thesis by simp
  next
    case False
    with 1(2) have pos: "0 < n div 2" by linarith
    with 1 have ih: "2 ^ (bit_length (n div 2) - 1) \<le> n div 2" by simp
    from pos have "0 < bit_length (n div 2)" by (subst bit_length.simps) simp
    with 1(2) have bl: "bit_length n - 1 = Suc (bit_length (n div 2) - 1)"
      by (subst bit_length.simps) simp
    from ih have "2 * 2 ^ (bit_length (n div 2) - 1) \<le> n" by linarith
    with bl show ?thesis by simp
  qed
qed

lemma round_to_double_overflow:
  assumes "double_overflow \<le> m"
  shows "double_overflow \<le> round_to_double m"
proof -
  from assms have big: "2 ^ 1024 \<le> m" by (simp only: double_overflow_def)
  then have bl: "1024 < bit_length m" by (rule bit_length_gt)
  have "(0::int) < 2 ^ 1024" by (simp only: zero_less_power zero_less_numeral)
  from this big have pos: "0 < m" by (rule less_le_trans)
  define e where "e = bit_length m - 53"
  define q where "q = m div 2 ^ e"
  have e: "bit_length m - 1 = 52 + e" using bl by (simp add: e_def)
  have "2 ^ (52 + e) \<le> m" using bit_length_lower [OF pos] by (simp only: e)
  then have "(2::int) ^ 52 * 2 ^ e \<le> m" by (simp only: power_add)
  then have "(2 ^ 52 * 2 ^ e) div 2 ^ e \<le> m div 2 ^ e"
    by (rule zdiv_mono1) simp
  moreover have "((2::int) ^ 52 * 2 ^ e) div 2 ^ e = 2 ^ 52"
    by (rule nonzero_mult_div_cancel_right) simp
  ultimately have q52: "2 ^ 52 \<le> q" unfolding q_def by (simp only:)
  have "(2::int) ^ 1024 \<le> 2 ^ (52 + e)" using bl by (intro power_increasing) (simp_all add: e_def)
  also have "\<dots> = 2 ^ 52 * 2 ^ e" by (simp only: power_add)
  also have "\<dots> \<le> q * 2 ^ e" using q52 by (intro mult_right_mono) simp_all
  finally have low: "2 ^ 1024 \<le> q * 2 ^ e" .
  have "q * 2 ^ e \<le> (q + 1) * 2 ^ e" by (intro mult_right_mono) simp_all
  with low have up: "2 ^ 1024 \<le> (q + 1) * 2 ^ e" by (rule order_trans)
  have "\<not> bit_length m \<le> 53" using bl by simp
  then have "round_to_double m = q * 2 ^ e \<or> round_to_double m = (q + 1) * 2 ^ e"
    by (auto simp add: round_to_double_def Let_def e_def q_def)
  then show ?thesis
  proof
    assume "round_to_double m = q * 2 ^ e"
    with low show ?thesis by (simp only: double_overflow_def)
  next
    assume "round_to_double m = (q + 1) * 2 ^ e"
    with up show ?thesis by (simp only: double_overflow_def)
  qed
qed

lemma to_double_overflow: "double_overflow \<le> n \<Longrightarrow> to_double n = PosInfinity"
proof -
  assume a: "double_overflow \<le> n"
  have "(0::int) < double_overflow" by (simp only: double_overflow_def zero_less_power zero_less_numeral)
  from this a have pos: "0 < n" by (rule less_le_trans)
  then have abs: "\<bar>n\<bar> = n" by simp
  have "double_overflow \<le> round_to_double n" using a by (rule round_to_double_overflow)
  then show ?thesis
    unfolding to_double_def abs Let_def using pos by (simp only: if_True) simp
qed

lemma of_char_digit_char: "d < 10 \<Longrightarrow> (of_char (digit_char d) :: nat) = 48 + d"
  by (simp add: digit_char_def)

lemma is_digit_digit_char: "d < 10 \<Longrightarrow> is_digit (digit_char d)"
  by (simp add: is_digit_def of_char_digit_char)

lemma digit_val_digit_char: "d < 10 \<Longrightarrow> digit_val (digit_char d) = int d"
  by (simp add: digit_val_def of_char_digit_char)

lemma dec_digits_all_digits: "\<forall>c \<in> set (dec_digits n). is_digit c"
proof (induction n rule: dec_digits.induct)
  case (1 n)
  show ?case
  proof (cases "n < 10")
    case True
    then show ?thesis by (subst dec_digits.simps) (simp add: is_digit_digit_char)
  next
    case False
    with 1 show ?thesis by (subst dec_digits.simps) (simp add: is_digit_digit_char)
  qed
qed

lemma digits_value_snoc: "digits_value (ds @ [c]) = 10 * digits_value ds + digit_val c"
  by (simp add: digits_value_def)

lemma digits_value_dec_digits: "0 \<le> n \<Longrightarrow> digits_value (dec_digits n) = n"
proof (induction n rule: dec_digits.induct)
  case (1 n)
  show ?case
  proof (cases "n < 10")
    case True
    with 1(2) show ?thesis
      by (subst dec_digits.simps) (simp add: digits_value_def digit_val_digit_char)
  next
    case False
    with 1 have "digits_value (dec_digits (n div 10)) = n div 10" by simp
    with False show ?thesis
      by (subst dec_digits.simps) (simp add: digits_value_snoc digit_val_digit_char)
  qed
qed

lemma digit_not_space: "is_digit c \<Longrightarrow> \<not> is_js_space c"
  by (auto simp add: is_digit_def is_js_space_def)

lemma digit_not_sign: "is_digit c \<Longrightarrow> c \<noteq> CHR ''-'' \<and> c \<noteq> CHR ''+''"
  by (auto simp add: is_digit_def)

lemma parseInt_digits:
  assumes "ds \<noteq> []" and "\<forall>c \<in> set ds. is_digit c"
  shows "parseInt ds = to_double (digits_value ds)"
proof -
  from assms obtain c cs where ds: "ds = c # cs" and c: "is_digit c" by (cases ds) auto
  have tw: "takeWhile is_digit ds = ds" using assms(2) by (simp add: takeWhile_eq_all_conv)
  have dw: "dropWhile is_js_space ds = ds" using ds c by (simp add: digit_not_space)
  have sg: "(case ds of c # _ \<Rightarrow> if c = CHR ''-'' then - 1 else 1 | [] \<Rightarrow> (1::int)) = 1"
    using ds digit_not_sign [OF c] by simp
  have s2: "(case ds of c # r \<Rightarrow> if c = CHR ''-'' \<or> c = CHR ''+'' then r else ds | [] \<Rightarrow> ds) = ds"
    using ds digit_not_sign [OF c] by simp
  show ?thesis
    unfolding parseInt_def dw Let_def sg s2 tw using assms(1) by simp
qed

lemma parseInt_minus_digits:
  assumes "ds \<noteq> []" and "\<forall>c \<in> set ds. is_digit c"
  shows "parseInt (CHR ''-'' # ds) = to_double (- digits_value ds)"
proof -
  have tw: "takeWhile is_digit ds = ds" using assms(2) by (simp add: takeWhile_eq_all_conv)
  have dw: "dropWhile is_js_space (CHR ''-'' # ds) = CHR ''-'' # ds"
    by (simp add: is_js_space_def)
  show ?thesis
    unfolding parseInt_def dw by (simp add: Let_def tw assms(1))
qed

lemma parseInt_int_text: "parseInt (int_text n) = to_double n"
  by (simp add: int_text_def parseInt_digits parseInt_minus_digits dec_digits_not_Nil
      dec_digits_all_digits digits_value_dec_digits)

lemma parseInt_safe: "\<bar>n\<bar> < 2 ^ 53 \<Longrightarrow> parseInt (int_text n) = Finite n"
  by (simp only: parseInt_int_text to_double_safe)

lemma parseInt_no_digit:
  assumes "\<forall>c \<in> set s. \<not> is_digit c"
  shows "parseInt s = NaN"
proof -
  define s1 where "s1 = dropWhile is_js_space s"
  define s2 where
    "s2 = (case s1 of c # r \<Rightarrow> if c = CHR ''-'' \<or> c = CHR ''+'' then r else s1 | [] \<Rightarrow> s1)"
  have "set s1 \<subseteq> set s" unfolding s1_def by (auto dest: set_dropWhileD)
  moreover have "set s2 \<subseteq> set s1" unfolding s2_def by (auto split: list.splits)
  ultimately have nd: "\<forall>c \<in> set s2. \<not> is_digit c" using assms by blast
  have "takeWhile is_digit s2 = []" using nd by (cases s2) simp_all
  then show ?thesis
    unfolding parseInt_def s2_def s1_def by (simp add: Let_def)
qed

lemma js_split_not_Nil: "js_split c s \<noteq> []"
  by (induction s) (auto split: list.splits)

lemma join_js_split: "join_with c (js_split c s) = s"
proof (induction s)
  case Nil show ?case by simp
next
  case (Cons x xs)
  obtain seg segs where sp: "js_split c xs = seg # segs"
    using js_split_not_Nil [of c xs] by (cases "js_split c xs") auto
  show ?case using Cons sp by (cases segs) auto
qed

lemma js_split_no_sep: "\<forall>seg \<in> set (js_split c s). c \<notin> set seg"
  by (induction s) (auto split: list.splits)

lemma js_split_prefix: "c \<notin> set d \<Longrightarrow> js_split c (d @ c # t) = d # js_split c t"
  by (induction d) auto


lemma toString_if: "toString v = (if v = Absent then Inl TypeError else Inr (cell_text v))"
  by (cases v) (simp_all add: toString_def)

lemma toString_opt_if: "toString_opt v = (if v = Absent then None else Some (cell_text v))"
  by (cases v) (simp_all add: toString_opt_def)

lemma truthy_present: "truthy v \<Longrightarrow> v \<noteq> Absent"
  by (cases v) simp_all




lemma map_enumerate_shift:
  "map (\<lambda>(i, r). g i r) (enumerate (n + k) ys) = map (\<lambda>(i, r). g (i + k) r) (enumerate n ys)"
proof (induction ys arbitrary: n)
  case Nil show ?case by simp
next
  case (Cons y ys)
  from Cons [of "Suc n"] show ?case by simp
qed

lemma mappedRows_append:
  "mappedRows legacy clock (xs @ ys) =
     mappedRows legacy clock xs @ mappedRows legacy (\<lambda>i. clock (i + length xs)) ys"
  using map_enumerate_shift [of "\<lambda>i r. validateAndParseJob legacy (clock i) r" 0 "length xs" ys]
  by (simp add: mappedRows_def enumerate_append_eq)

lemma parsedJobs_append:
  "parsedJobs legacy clock (xs @ ys) =
     parsedJobs legacy clock xs @ parsedJobs legacy (\<lambda>i. clock (i + length xs)) ys"
  by (simp add: parsedJobs_def mappedRows_append)

lemma parsedJobs_Cons:
  "parsedJobs legacy clock (row # rows) =
     (case validateAndParseJob legacy (clock 0) row of None \<Rightarrow> [] | Some job \<Rightarrow> [job]) @
     parsedJobs legacy (\<lambda>i. clock (i + 1)) rows"
  using parsedJobs_append [of legacy clock "[row]" rows]
  by (simp add: parsedJobs_def mappedRows_def split: option.splits)

lemma posted_date_choice:
  "(if isValidDate legacy (toString_opt (PostedDate row))
    then toString (PostedDate row) else Inr (todayOf now)) =
   Inr (if isValidDate legacy (toString_opt (PostedDate row))
        then cell_text (PostedDate row) else todayOf now)"
  by (simp add: toString_if toString_opt_if isValidDate_def date_has_time_def)

lemma buildJob_Inr:
  "buildJob legacy now row = Inr job \<longleftrightarrow>
     ID row \<noteq> Absent \<and> Title row \<noteq> Absent \<and> Company row \<noteq> Absent \<and>
     Location row \<noteq> Absent \<and> Description row \<noteq> Absent \<and> Requirements row \<noteq> Absent \<and>
     SalaryMin row \<noteq> Absent \<and> SalaryMax row \<noteq> Absent \<and>
     job = \<lparr> id_job = cell_text (ID row),
             title = cell_text (Title row),
             company = cell_text (Company row),
             location = cell_text (Location row),
             type_job = or_default (toString_opt (Type row)) ''FULL_TIME'',
             description = cell_text (Description row),
             requirements =
               filter (\<lambda>seg. seg \<noteq> []) (js_split newline (cell_text (Requirements row))),
             salary = \<lparr> min_salary = or_zero (parseInt (cell_text (SalaryMin row))),
                        max_salary = or_zero (parseInt (cell_text (SalaryMax row))),
                        currency = or_default (toString_opt (SalaryCurrency row)) ''USD'' \<rparr>,
             postedDate = (if isValidDate legacy (toString_opt (PostedDate row))
                           then cell_text (PostedDate row) else todayOf now),
             applicationUrl = or_default (toString_opt (ApplicationUrl row)) ''#'',
             companyLogo = or_default (toString_opt (CompanyLogo row)) placeholderLogo \<rparr>"
  unfolding buildJob_def posted_date_choice
  by (auto simp add: bind_err_def toString_if)

lemma validateAndParseJob_Some:
  "validateAndParseJob legacy now row = Some job \<longleftrightarrow>
     truthy (ID row) \<and> truthy (Title row) \<and> truthy (Company row) \<and>
     buildJob legacy now row = Inr job"
  by (auto simp add: validateAndParseJob_def tryBody_def bind_err_def split: sum.splits)

subsection \<open>The sample inputs evaluated\<close>

lemma dec_digits_seven: "dec_digits 7 = ''7''"
  by code_simp

lemma dec_digits_zero: "dec_digits 0 = ''0''"
  by code_simp

lemma valid_2024_03_01: "es_date_only ''2024-03-01''"
  by (simp add: is_digit_def two_digits_def days_in_month_def year_of_def leap_year_def)


lemma invalid_not_a_date: "\<not> es_date_only ''not-a-date''"
  by (simp add: is_digit_def)

lemma parseInt_50000: "parseInt ''50000'' = Finite 50000"
proof -
  have "parseInt ''50000'' = to_double (digits_value ''50000'')"
    by (rule parseInt_digits) (simp_all add: is_digit_def)
  also have "digits_value ''50000'' = 50000" by (simp add: digits_value_def digit_val_def)
  also have "to_double 50000 = Finite 50000" by (rule to_double_safe) simp
  finally show ?thesis .
qed

lemma parseInt_abc: "parseInt ''abc'' = NaN"
  by (rule parseInt_no_digit) (simp add: is_digit_def)

lemma parseInt_empty: "parseInt [] = NaN"
  by (rule parseInt_no_digit) simp

text \<open>
  Beyond \<open>2^53\<close> the result is rounded: \<^verbatim>\<open>parseInt('9007199254740993', 10)\<close> is
  \<^verbatim>\<open>9007199254740992\<close>.
\<close>

lemma bit_length_example: "bit_length 9007199254740993 = 54"
  by (simp add: bit_length.simps)

lemma round_to_double_example: "round_to_double 9007199254740993 = 9007199254740992"
  by (simp add: round_to_double_def bit_length_example Let_def)

lemma parseInt_rounds: "parseInt ''9007199254740993'' = Finite 9007199254740992"
proof -
  have "parseInt ''9007199254740993'' = to_double (digits_value ''9007199254740993'')"
    by (rule parseInt_digits) (simp_all add: is_digit_def)
  also have "digits_value ''9007199254740993'' = 9007199254740993"
    by (simp add: digits_value_def digit_val_def)
  also have "to_double 9007199254740993 = Finite 9007199254740992"
  proof -
    have "(9007199254740992::int) < 2 ^ 54" by simp
    then have "\<not> double_overflow \<le> 9007199254740992" by (rule below_overflow) simp
    then show ?thesis
      unfolding to_double_def
      by (simp add: round_to_double_example del: power_strict_increasing_iff)
  qed
  finally show ?thesis .
qed

text \<open>A numeric cell that is not an integer: \<^verbatim>\<open>parseInt\<close> reads the digits before the point.\<close>

lemma parseInt_fraction: "parseInt (cell_text (OtherNumber sample_fraction)) = Finite 50000"
proof -
  have t: "cell_text (OtherNumber sample_fraction) = ''50000.5''"
    by simp
  have "parseInt ''50000.5'' = to_double 50000"
    by (simp add: parseInt_def is_js_space_def is_digit_def digits_value_def digit_val_def)
  also have "to_double 50000 = Finite 50000" by (rule to_double_safe) simp
  finally show ?thesis by (simp only: t)
qed

lemma sample_today: "todayOf sample_now = ''2026-11-03''"
  by (simp add: todayOf_def sample_now_def)

lemma sample_row_accepted:
  "validateAndParseJob legacy now sample_row =
     Some \<lparr> id_job = ''7'', title = ''Engineer'', company = ''Acme'', location = ''Paris'',
            type_job = ''CONTRACT'', description = ''Builds things'',
            requirements = [''A'', ''B'', ''C''],
            salary = \<lparr> min_salary = Finite 50000, max_salary = Finite 0, currency = ''USD'' \<rparr>,
            postedDate = ''2024-03-01'', applicationUrl = ''#'',
            companyLogo = placeholderLogo \<rparr>"
  unfolding validateAndParseJob_Some buildJob_Inr
  by (simp add: sample_row_def int_text_def dec_digits_seven toString_opt_if or_default_def
      or_zero_def parseInt_50000 parseInt_empty newline_def isValidDate_def
      date_has_time_def valid_2024_03_01 del: es_date_only.simps)

section \<open>The required-field check\<close>

text \<open>
  C1. A row in which the ID, the Title or the Company is missing, or has the empty string as
  its text, produces no job: the validator returns \<^verbatim>\<open>null\<close>. The rejection is the early
  return of the required-field check (\<open>Inr None\<close> of the \<^verbatim>\<open>try\<close> body), taken before the
  job object is built.
\<close>

theorem missing_required_field_rejected:
  assumes "ID row = Absent \<or> cell_text (ID row) = [] \<or>
           Title row = Absent \<or> cell_text (Title row) = [] \<or>
           Company row = Absent \<or> cell_text (Company row) = []"
  shows "validateAndParseJob legacy now row = None \<and> tryBody legacy now row = Inr None"
proof -
  have "\<not> truthy (ID row) \<or> \<not> truthy (Title row) \<or> \<not> truthy (Company row)"
    using assms truthy_present empty_text_falsy by blast
  then have "tryBody legacy now row = Inr None" by (auto simp add: tryBody_def)
  then show ?thesis by (simp add: validateAndParseJob_def)
qed

theorem missing_required_field_rejected_witness:
  "cell_text (Title row_empty_title) = [] \<and>
   validateAndParseJob strict_engine sample_now row_empty_title = None \<and>
   tryBody strict_engine sample_now row_empty_title = Inr None"
proof -
  have h: "cell_text (Title row_empty_title) = []"
    by (simp add: row_empty_title_def sample_row_def)
  then have "ID row_empty_title = Absent \<or> cell_text (ID row_empty_title) = [] \<or>
      Title row_empty_title = Absent \<or> cell_text (Title row_empty_title) = [] \<or>
      Company row_empty_title = Absent \<or> cell_text (Company row_empty_title) = []"
    by simp
  from missing_required_field_rejected [OF this, of strict_engine sample_now] h
  show ?thesis by simp
qed

lemma validateAndParseJob_accepts:
  "(\<exists>job. validateAndParseJob legacy now row = Some job) \<longleftrightarrow>
     truthy (ID row) \<and> truthy (Title row) \<and> truthy (Company row) \<and>
     Location row \<noteq> Absent \<and> Description row \<noteq> Absent \<and> Requirements row \<noteq> Absent \<and>
     SalaryMin row \<noteq> Absent \<and> SalaryMax row \<noteq> Absent"
  unfolding validateAndParseJob_Some buildJob_Inr by (auto dest: truthy_present)

lemma tryBody_no_location:
  "truthy (ID row) \<Longrightarrow> truthy (Title row) \<Longrightarrow> truthy (Company row) \<Longrightarrow> Location row = Absent \<Longrightarrow>
   tryBody legacy now row = Inl TypeError"
  unfolding tryBody_def buildJob_def posted_date_choice
  by (auto simp add: bind_err_def toString_if dest: truthy_present)

text \<open>
  C2 as stated fails. Presence and a non-empty text are not enough: the check tests
  truthiness, so an ID cell holding the number 0 (text \<^verbatim>\<open>0\<close>) is rejected; and a row
  whose Location cell is blank throws in \<^verbatim>\<open>row.Location.toString()\<close>, which the
  \<^verbatim>\<open>catch\<close> block turns into \<^verbatim>\<open>null\<close>.
\<close>

theorem present_required_fields_counterexample:
  "ID row_id_zero \<noteq> Absent \<and> cell_text (ID row_id_zero) = ''0'' \<and>
   Title row_id_zero \<noteq> Absent \<and> cell_text (Title row_id_zero) = ''Engineer'' \<and>
   Company row_id_zero \<noteq> Absent \<and> cell_text (Company row_id_zero) = ''Acme'' \<and>
   validateAndParseJob strict_engine sample_now row_id_zero = None \<and>
   ID row_no_location \<noteq> Absent \<and> cell_text (ID row_no_location) = ''7'' \<and>
   Title row_no_location \<noteq> Absent \<and> cell_text (Title row_no_location) = ''Engineer'' \<and>
   Company row_no_location \<noteq> Absent \<and> cell_text (Company row_no_location) = ''Acme'' \<and>
   validateAndParseJob strict_engine sample_now row_no_location = None"
proof -
  have "validateAndParseJob strict_engine sample_now row_id_zero = None"
    by (simp add: validateAndParseJob_def tryBody_def row_id_zero_def)
  moreover have "tryBody strict_engine sample_now row_no_location = Inl TypeError"
    by (rule tryBody_no_location) (simp_all add: row_no_location_def sample_row_def)
  then have "validateAndParseJob strict_engine sample_now row_no_location = None"
    by (simp add: validateAndParseJob_def)
  ultimately show ?thesis
    by (simp add: row_id_zero_def row_no_location_def sample_row_def int_text_def
        dec_digits_zero dec_digits_seven)
qed

text \<open>
  C2, amended. A row whose ID, Title and Company are truthy and whose Location,
  Description, Requirements, SalaryMin and SalaryMax cells are present produces exactly
  one job, and the job's id, title and company are the texts of the corresponding cells.
\<close>

theorem complete_row_yields_job:
  assumes "truthy (ID row)" and "truthy (Title row)" and "truthy (Company row)"
    and "Location row \<noteq> Absent" and "Description row \<noteq> Absent"
    and "Requirements row \<noteq> Absent" and "SalaryMin row \<noteq> Absent"
    and "SalaryMax row \<noteq> Absent"
  shows "\<exists>job. validateAndParseJob legacy now row = Some job \<and>
           id_job job = cell_text (ID row) \<and> title job = cell_text (Title row) \<and>
           company job = cell_text (Company row)"
proof -
  from assms obtain job where j: "validateAndParseJob legacy now row = Some job"
    using validateAndParseJob_accepts [of legacy now row] by blast
  then have "buildJob legacy now row = Inr job" by (simp add: validateAndParseJob_Some)
  then have "id_job job = cell_text (ID row) \<and> title job = cell_text (Title row) \<and>
      company job = cell_text (Company row)"
    by (simp add: buildJob_Inr)
  with j show ?thesis by blast
qed

theorem complete_row_yields_job_witness:
  "truthy (ID sample_row) \<and> truthy (Title sample_row) \<and> truthy (Company sample_row) \<and>
   Location sample_row \<noteq> Absent \<and> Description sample_row \<noteq> Absent \<and>
   Requirements sample_row \<noteq> Absent \<and> SalaryMin sample_row \<noteq> Absent \<and>
   SalaryMax sample_row \<noteq> Absent \<and>
   map_option id_job (validateAndParseJob strict_engine sample_now sample_row) = Some ''7'' \<and>
   map_option title (validateAndParseJob strict_engine sample_now sample_row) = Some ''Engineer'' \<and>
   map_option company (validateAndParseJob strict_engine sample_now sample_row) = Some ''Acme''"
proof -
  have h: "truthy (ID sample_row)" "truthy (Title sample_row)" "truthy (Company sample_row)"
    "Location sample_row \<noteq> Absent" "Description sample_row \<noteq> Absent"
    "Requirements sample_row \<noteq> Absent" "SalaryMin sample_row \<noteq> Absent"
    "SalaryMax sample_row \<noteq> Absent"
    by (simp_all add: sample_row_def)
  from complete_row_yields_job [OF h, of strict_engine sample_now]
  obtain job where "validateAndParseJob strict_engine sample_now sample_row = Some job"
    and "id_job job = cell_text (ID sample_row)" and "title job = cell_text (Title sample_row)"
    and "company job = cell_text (Company sample_row)" by blast
  then show ?thesis using h by (simp add: sample_row_def int_text_def dec_digits_seven)
qed

section \<open>Errors thrown while a row is converted\<close>

text \<open>
  C3. Every \<^verbatim>\<open>toString\<close> of an absent cell is a branch \<open>Inl\<close> of the model, and
  \<^verbatim>\<open>validateAndParseJob\<close> is a total function into \<open>Job option\<close>. When the body of the
  \<^verbatim>\<open>try\<close> block throws on a row, the validator returns \<^verbatim>\<open>null\<close> for that row, and the
  jobs of the batch are those of the rows before it followed by those of the rows after
  it, each validated at its own position in the batch.
\<close>

theorem thrown_error_isolated:
  assumes "tryBody legacy (clock (length before)) row = Inl e"
  shows "validateAndParseJob legacy (clock (length before)) row = None \<and>
         parsedJobs legacy clock (before @ row # after) =
           parsedJobs legacy clock before @
           parsedJobs legacy (\<lambda>i. clock (i + Suc (length before))) after"
proof -
  have none: "validateAndParseJob legacy (clock (length before)) row = None"
    using assms by (simp add: validateAndParseJob_def)
  have "parsedJobs legacy clock (before @ row # after) =
      parsedJobs legacy clock before @
      parsedJobs legacy (\<lambda>i. clock (i + length before)) (row # after)"
    by (rule parsedJobs_append)
  also have "parsedJobs legacy (\<lambda>i. clock (i + length before)) (row # after) =
      parsedJobs legacy (\<lambda>i. clock (i + Suc (length before))) after"
    using none by (simp add: parsedJobs_Cons)
  finally show ?thesis using none by simp
qed

theorem thrown_error_isolated_witness:
  "tryBody strict_engine (sample_clock (length [sample_row])) row_no_location = Inl TypeError \<and>
   validateAndParseJob strict_engine (sample_clock (length [sample_row])) row_no_location = None \<and>
   length (parsedJobs strict_engine sample_clock ([sample_row] @ row_no_location # [sample_row])) = 2"
proof -
  have h: "tryBody strict_engine (sample_clock (length [sample_row])) row_no_location = Inl TypeError"
    by (rule tryBody_no_location) (simp_all add: row_no_location_def sample_row_def)
  have one: "length (parsedJobs legacy clock [sample_row]) = 1" for legacy clock
    by (simp add: parsedJobs_def mappedRows_def sample_row_accepted)
  from thrown_error_isolated [where legacy = strict_engine and clock = sample_clock
      and before = "[sample_row]" and row = row_no_location and e = TypeError
      and after = "[sample_row]", OF h] h one
  show ?thesis by simp
qed

section \<open>The batch\<close>

lemma mappedRows_outcomes: "mappedRows legacy clock rows = row_outcomes legacy clock rows"
  unfolding row_outcomes_def
  by (rule nth_equalityI) (simp_all add: mappedRows_def nth_enumerate_eq)

lemma map_Some_the_filter:
  "map Some (map the (filter (\<lambda>x. x \<noteq> None) xs)) = filter (\<lambda>x. x \<noteq> None) xs"
  by (induction xs) auto

lemma map_Some_parsedJobs:
  "map Some (parsedJobs legacy clock rows) =
     filter (\<lambda>r. r \<noteq> None) (row_outcomes legacy clock rows)"
  unfolding parsedJobs_def mappedRows_outcomes by (rule map_Some_the_filter)

lemma parsedJobs_empty:
  "parsedJobs legacy clock rows = [] \<longleftrightarrow>
     (\<forall>r \<in> set (row_outcomes legacy clock rows). r = None)"
  unfolding parsedJobs_def mappedRows_outcomes by (simp add: filter_empty_conv)

lemma acquired_Some:
  "acquired fetch = Some buf \<longleftrightarrow>
     (\<exists>resp. fetch = Inr resp \<and> ok resp \<and> arrayBuffer resp = Inr buf)"
  by (auto simp add: acquired_def split: sum.splits if_splits)

lemma fetchBody_not_acquired:
  "acquired fetch = None \<Longrightarrow> \<exists>e. fetchBody legacy clock fetch read sheet_to_json = Inl e"
  by (auto simp add: acquired_def fetchBody_def bind_err_def split: sum.splits if_splits)

lemma fetchBody_acquired:
  assumes "acquired fetch = Some buf"
  shows "fetchBody legacy clock fetch read sheet_to_json =
     (case read buf of
        Inl e \<Rightarrow> Inl e
      | Inr wb \<Rightarrow>
          if SheetNames wb = [] then Inl (ErrorObj ''Excel file is empty'')
          else (case sheet_to_json (Sheets wb (hd (SheetNames wb))) of
                  Inl e \<Rightarrow> Inl e
                | Inr jsonData \<Rightarrow>
                    if parsedJobs legacy clock jsonData = []
                    then Inl (ErrorObj ''No valid jobs found in the file'')
                    else Inr (parsedJobs legacy clock jsonData)))"
proof -
  from assms obtain resp where "fetch = Inr resp" "ok resp" "arrayBuffer resp = Inr buf"
    unfolding acquired_Some by blast
  then show ?thesis
    by (simp add: fetchBody_def bind_err_def Let_def split: sum.splits)
qed

lemma fetchJobs_error:
  "error (fetchJobs legacy clock fetch read sheet_to_json initial_state) =
     (case fetchBody legacy clock fetch read sheet_to_json of
        Inr parsed \<Rightarrow> None
      | Inl err \<Rightarrow> Some (case err of ErrorObj message \<Rightarrow> message
                                     | NotAnError \<Rightarrow> ''Failed to fetch jobs''))"
  by (simp add: fetchJobs_def initial_state_def split: sum.splits)

lemma fetchJobs_jobs:
  "jobs (fetchJobs legacy clock fetch read sheet_to_json initial_state) =
     (case fetchBody legacy clock fetch read sheet_to_json of
        Inr parsed \<Rightarrow> parsed | Inl err \<Rightarrow> [])"
  by (simp add: fetchJobs_def initial_state_def split: sum.splits)

lemma fetchJobs_loading:
  "loading (fetchJobs legacy clock fetch read sheet_to_json st) = False"
  by (simp add: fetchJobs_def split: sum.splits)

lemma sample_batch:
  "spec_decode sample_read sample_sheet_to_json ''bytes'' = Rows [row_no_location, sample_row]"
  by (simp add: spec_decode_def sample_read_def sample_sheet_to_json_def)

lemma sample_outcomes:
  "row_outcomes strict_engine sample_clock [row_no_location, sample_row] =
     [None, validateAndParseJob strict_engine (sample_clock 1) sample_row]"
proof -
  have "validateAndParseJob strict_engine (sample_clock 0) row_no_location = None"
    by (simp add: validateAndParseJob_def tryBody_no_location row_no_location_def sample_row_def)
  moreover have "[0..<2] = [0, 1]" by (simp add: upt_rec)
  ultimately show ?thesis by (simp add: row_outcomes_def)
qed

text \<open>
  C4 as stated fails: the hook also reports a failure when the bytes cannot be acquired.
  With a response that is not ok, \<^verbatim>\<open>fetchJobs\<close> sets the error
  \<^verbatim>\<open>Failed to fetch jobs file\<close> and leaves the jobs empty, although the bytes behind the
  response decode to a sheet with a row that survives validation.
\<close>

theorem fetch_failure_counterexample:
  "error (fetchJobs strict_engine sample_clock (Inr sample_response_not_ok) sample_read
            sample_sheet_to_json initial_state) = Some ''Failed to fetch jobs file'' \<and>
   jobs (fetchJobs strict_engine sample_clock (Inr sample_response_not_ok) sample_read
           sample_sheet_to_json initial_state) = [] \<and>
   arrayBuffer sample_response_not_ok = Inr ''bytes'' \<and>
   spec_decode sample_read sample_sheet_to_json ''bytes'' = Rows [row_no_location, sample_row] \<and>
   validateAndParseJob strict_engine (sample_clock 1) sample_row \<noteq> None"
proof -
  have "fetchBody strict_engine sample_clock (Inr sample_response_not_ok) sample_read
      sample_sheet_to_json = Inl (ErrorObj ''Failed to fetch jobs file'')"
    by (simp add: fetchBody_def bind_err_def sample_response_not_ok_def)
  then show ?thesis
    by (simp add: fetchJobs_error fetchJobs_jobs sample_batch sample_row_accepted
        sample_response_not_ok_def)
qed

text \<open>
  C4, amended. \<^verbatim>\<open>fetchJobs\<close> reports a failure for the whole batch, and leaves the jobs
  empty, exactly when the bytes are not acquired (the fetch rejects, the response is not
  ok, or its body cannot be read), the decoder fails, the workbook has no sheet (with the
  message \<^verbatim>\<open>Excel file is empty\<close>), or no decoded row survives validation (with the message
  \<^verbatim>\<open>No valid jobs found in the file\<close>). Otherwise it sets no error, and the jobs are the
  outcomes of the validator that are jobs, in the order of the rows.
\<close>

theorem batch_failure_exactly_when:
  "((error (fetchJobs legacy clock fetch read sheet_to_json initial_state) \<noteq> None) =
      (acquired fetch = None \<or>
       (\<exists>buf. acquired fetch = Some buf \<and>
          (spec_decode read sheet_to_json buf = DecodeError \<or>
           spec_decode read sheet_to_json buf = EmptyWorkbookError \<or>
           (\<exists>rows. spec_decode read sheet_to_json buf = Rows rows \<and>
                   (\<forall>r \<in> set (row_outcomes legacy clock rows). r = None)))))) \<and>
   (error (fetchJobs legacy clock fetch read sheet_to_json initial_state) \<noteq> None \<longrightarrow>
      jobs (fetchJobs legacy clock fetch read sheet_to_json initial_state) = []) \<and>
   (error (fetchJobs legacy clock fetch read sheet_to_json initial_state) = None \<longrightarrow>
      (\<exists>buf rows. acquired fetch = Some buf \<and> spec_decode read sheet_to_json buf = Rows rows \<and>
         map Some (jobs (fetchJobs legacy clock fetch read sheet_to_json initial_state)) =
           filter (\<lambda>r. r \<noteq> None) (row_outcomes legacy clock rows))) \<and>
   (\<forall>buf. acquired fetch = Some buf \<and> spec_decode read sheet_to_json buf = EmptyWorkbookError \<longrightarrow>
      error (fetchJobs legacy clock fetch read sheet_to_json initial_state) =
        Some ''Excel file is empty'') \<and>
   (\<forall>buf rows. acquired fetch = Some buf \<and> spec_decode read sheet_to_json buf = Rows rows \<and>
        (\<forall>r \<in> set (row_outcomes legacy clock rows). r = None) \<longrightarrow>
      error (fetchJobs legacy clock fetch read sheet_to_json initial_state) =
        Some ''No valid jobs found in the file'') \<and>
   loading (fetchJobs legacy clock fetch read sheet_to_json initial_state) = False"
proof (cases "acquired fetch")
  case None
  from fetchBody_not_acquired [OF None, of legacy clock read sheet_to_json]
  obtain e where "fetchBody legacy clock fetch read sheet_to_json = Inl e" by blast
  with None show ?thesis
    by (simp add: fetchJobs_error fetchJobs_jobs fetchJobs_loading)
next
  case (Some buf)
  note body = fetchBody_acquired [OF Some, of legacy clock read sheet_to_json]
  show ?thesis
  proof (cases "read buf")
    case (Inl e)
    with Some show ?thesis
      by (simp add: fetchJobs_error fetchJobs_jobs fetchJobs_loading body spec_decode_def)
  next
    case (Inr wb)
    show ?thesis
    proof (cases "SheetNames wb")
      case Nil
      with Some Inr show ?thesis
        by (simp add: fetchJobs_error fetchJobs_jobs fetchJobs_loading body spec_decode_def)
    next
      case (Cons first others)
      show ?thesis
      proof (cases "sheet_to_json (Sheets wb first)")
        case (Inl e)
        with Some Inr Cons show ?thesis
          by (simp add: fetchJobs_error fetchJobs_jobs fetchJobs_loading body spec_decode_def)
      next
        case rows: (Inr jsonData)
        show ?thesis
        proof (cases "parsedJobs legacy clock jsonData = []")
          case True
          with Some Inr Cons rows show ?thesis
            by (simp add: fetchJobs_error fetchJobs_jobs fetchJobs_loading body spec_decode_def
                parsedJobs_empty [symmetric])
        next
          case False
          with Some Inr Cons rows show ?thesis
            by (simp add: fetchJobs_error fetchJobs_jobs fetchJobs_loading body spec_decode_def
                parsedJobs_empty [symmetric] map_Some_parsedJobs)
        qed
      qed
    qed
  qed
qed

theorem batch_failure_exactly_when_witness:
  "acquired (Inr sample_response) = Some ''bytes'' \<and>
   spec_decode sample_read sample_sheet_to_json ''bytes'' = Rows [row_no_location, sample_row] \<and>
   row_outcomes strict_engine sample_clock [row_no_location, sample_row] =
     [None, validateAndParseJob strict_engine (sample_clock 1) sample_row] \<and>
   validateAndParseJob strict_engine (sample_clock 1) sample_row \<noteq> None \<and>
   error (fetchJobs strict_engine sample_clock (Inr sample_response) sample_read
            sample_sheet_to_json initial_state) = None \<and>
   map Some (jobs (fetchJobs strict_engine sample_clock (Inr sample_response) sample_read
                     sample_sheet_to_json initial_state)) =
     [validateAndParseJob strict_engine (sample_clock 1) sample_row]"
proof -
  have acq: "acquired (Inr sample_response) = Some ''bytes''"
    by (simp add: acquired_def sample_response_def)
  have ok: "validateAndParseJob strict_engine (sample_clock 1) sample_row \<noteq> None"
    by (simp add: sample_row_accepted)
  note inst = batch_failure_exactly_when [of strict_engine sample_clock "Inr sample_response"
      sample_read sample_sheet_to_json]
  note job = sample_row_accepted [of strict_engine "sample_clock 1"]
  from inst acq sample_batch sample_outcomes job
  have noerr: "error (fetchJobs strict_engine sample_clock (Inr sample_response) sample_read
      sample_sheet_to_json initial_state) = None"
    by simp
  with inst acq sample_batch sample_outcomes job
  have "map Some (jobs (fetchJobs strict_engine sample_clock (Inr sample_response) sample_read
      sample_sheet_to_json initial_state)) =
        [validateAndParseJob strict_engine (sample_clock 1) sample_row]"
    by simp
  with acq sample_batch sample_outcomes ok noerr show ?thesis by simp
qed

section \<open>The fields of a job\<close>

lemma or_zero_case: "or_zero r = (case r of NaN \<Rightarrow> Finite 0 | v \<Rightarrow> v)"
  by (simp add: or_zero_def split: js_number.splits)

lemma row_not_a_date_accepted:
  "validateAndParseJob strict_engine sample_now row_not_a_date =
     Some \<lparr> id_job = ''7'', title = ''Engineer'', company = ''Acme'', location = ''Paris'',
            type_job = ''CONTRACT'', description = ''Builds things'',
            requirements = [''A'', ''B'', ''C''],
            salary = \<lparr> min_salary = Finite 0, max_salary = Finite 0, currency = ''USD'' \<rparr>,
            postedDate = ''2026-11-03'', applicationUrl = ''#'',
            companyLogo = placeholderLogo \<rparr>"
  unfolding validateAndParseJob_Some buildJob_Inr
  by (simp add: row_not_a_date_def sample_row_def int_text_def dec_digits_seven
      toString_opt_if or_default_def or_zero_def parseInt_abc parseInt_empty newline_def
      isValidDate_def date_has_time_def invalid_not_a_date strict_engine_def sample_today
      del: es_date_only.simps)

text \<open>
  C5 as stated fails at a missing cell: \<^verbatim>\<open>row.SalaryMin.toString()\<close> has no optional
  chain, so a row that passes the required-field check but has a blank SalaryMin cell
  throws and yields no job at all, rather than a job with the salary component 0.
\<close>

theorem salary_missing_cell_counterexample:
  "truthy (ID row_no_salary_min) \<and> truthy (Title row_no_salary_min) \<and>
   truthy (Company row_no_salary_min) \<and> SalaryMin row_no_salary_min = Absent \<and>
   validateAndParseJob strict_engine sample_now row_no_salary_min = None"
proof -
  have "\<not> (\<exists>job. validateAndParseJob strict_engine sample_now row_no_salary_min = Some job)"
    unfolding validateAndParseJob_accepts by (simp add: row_no_salary_min_def)
  then show ?thesis by (simp add: row_no_salary_min_def sample_row_def )
qed

text \<open>
  C5, amended. For every row that yields a job, each salary component is the number that
  \<^verbatim>\<open>parseInt\<close> reads in base 10 from the text of the cell (the integer of its leading
  digits, as a double), or 0 when that is \<^verbatim>\<open>NaN\<close>. A text that is the decimal numeral
  of an integer \<open>n\<close> below \<open>2^53\<close> in magnitude gives \<open>n\<close>, and so does a numeric cell
  holding a safe integer; a text without any digit (the empty text, \<^verbatim>\<open>abc\<close>) gives 0, and
  \<^verbatim>\<open>50000\<close> gives 50000. A missing SalaryCurrency gives \<^verbatim>\<open>USD\<close>.
\<close>

theorem salary_coercion:
  assumes "validateAndParseJob legacy now row = Some job"
  shows "min_salary (salary job) =
       (case parseInt (cell_text (SalaryMin row)) of NaN \<Rightarrow> Finite 0 | v \<Rightarrow> v) \<and>
     max_salary (salary job) =
       (case parseInt (cell_text (SalaryMax row)) of NaN \<Rightarrow> Finite 0 | v \<Rightarrow> v) \<and>
     (\<forall>n. \<bar>n\<bar> < 2 ^ 53 \<and> cell_text (SalaryMin row) = int_text n \<longrightarrow>
          min_salary (salary job) = Finite n) \<and>
     (\<forall>n. \<bar>n\<bar> < 2 ^ 53 \<and> cell_text (SalaryMax row) = int_text n \<longrightarrow>
          max_salary (salary job) = Finite n) \<and>
     (\<forall>k. SalaryMin row = Number k \<longrightarrow> min_salary (salary job) = Finite (int_of k)) \<and>
     (\<forall>k. SalaryMax row = Number k \<longrightarrow> max_salary (salary job) = Finite (int_of k)) \<and>
     ((\<forall>c \<in> set (cell_text (SalaryMin row)). \<not> is_digit c) \<longrightarrow>
          min_salary (salary job) = Finite 0) \<and>
     ((\<forall>c \<in> set (cell_text (SalaryMax row)). \<not> is_digit c) \<longrightarrow>
          max_salary (salary job) = Finite 0) \<and>
     (SalaryCurrency row = Absent \<longrightarrow> currency (salary job) = ''USD'') \<and>
     (SalaryMin row = Text ''abc'' \<longrightarrow> min_salary (salary job) = Finite 0) \<and>
     (SalaryMax row = Text [] \<longrightarrow> max_salary (salary job) = Finite 0) \<and>
     (SalaryMin row = Text ''50000'' \<longrightarrow> min_salary (salary job) = Finite 50000)"
proof -
  from assms have b: "buildJob legacy now row = Inr job"
    by (simp add: validateAndParseJob_Some)
  then have smin: "min_salary (salary job) = or_zero (parseInt (cell_text (SalaryMin row)))"
    and smax: "max_salary (salary job) = or_zero (parseInt (cell_text (SalaryMax row)))"
    and cur: "currency (salary job) = or_default (toString_opt (SalaryCurrency row)) ''USD''"
    by (simp_all add: buildJob_Inr)
  have ominn: "min_salary (salary job) =
      (case parseInt (cell_text (SalaryMin row)) of NaN \<Rightarrow> Finite 0 | v \<Rightarrow> v)"
    by (simp only: smin or_zero_case)
  have omaxn: "max_salary (salary job) =
      (case parseInt (cell_text (SalaryMax row)) of NaN \<Rightarrow> Finite 0 | v \<Rightarrow> v)"
    by (simp only: smax or_zero_case)
  have nmin: "\<forall>n. \<bar>n\<bar> < 2 ^ 53 \<and> cell_text (SalaryMin row) = int_text n \<longrightarrow>
      min_salary (salary job) = Finite n"
  proof (intro allI impI)
    fix n assume e: "\<bar>n\<bar> < 2 ^ 53 \<and> cell_text (SalaryMin row) = int_text n"
    then have "parseInt (cell_text (SalaryMin row)) = Finite n"
      by (simp only: parseInt_safe)
    then show "min_salary (salary job) = Finite n" by (simp add: ominn)
  qed
  have nmax: "\<forall>n. \<bar>n\<bar> < 2 ^ 53 \<and> cell_text (SalaryMax row) = int_text n \<longrightarrow>
      max_salary (salary job) = Finite n"
  proof (intro allI impI)
    fix n assume e: "\<bar>n\<bar> < 2 ^ 53 \<and> cell_text (SalaryMax row) = int_text n"
    then have "parseInt (cell_text (SalaryMax row)) = Finite n"
      by (simp only: parseInt_safe)
    then show "max_salary (salary job) = Finite n" by (simp add: omaxn)
  qed
  have kmin: "\<forall>k. SalaryMin row = Number k \<longrightarrow> min_salary (salary job) = Finite (int_of k)"
    using nmin int_of_bound by simp
  have kmax: "\<forall>k. SalaryMax row = Number k \<longrightarrow> max_salary (salary job) = Finite (int_of k)"
    using nmax int_of_bound by simp
  have dmin: "(\<forall>c \<in> set (cell_text (SalaryMin row)). \<not> is_digit c) \<longrightarrow>
      min_salary (salary job) = Finite 0"
    by (simp add: ominn parseInt_no_digit)
  have dmax: "(\<forall>c \<in> set (cell_text (SalaryMax row)). \<not> is_digit c) \<longrightarrow>
      max_salary (salary job) = Finite 0"
    by (simp add: omaxn parseInt_no_digit)
  have usd: "SalaryCurrency row = Absent \<longrightarrow> currency (salary job) = ''USD''"
    by (simp add: cur toString_opt_if or_default_def)
  have abc: "SalaryMin row = Text ''abc'' \<longrightarrow> min_salary (salary job) = Finite 0"
    by (simp add: ominn parseInt_abc)
  have empty: "SalaryMax row = Text [] \<longrightarrow> max_salary (salary job) = Finite 0"
    by (simp add: omaxn parseInt_empty)
  have fifty: "SalaryMin row = Text ''50000'' \<longrightarrow> min_salary (salary job) = Finite 50000"
    by (simp add: ominn parseInt_50000)
  from ominn omaxn nmin nmax kmin kmax dmin dmax usd abc empty fifty
  show ?thesis by (intro conjI)
qed

theorem salary_coercion_witness:
  "SalaryMin row_not_a_date = Text ''abc'' \<and> SalaryMax row_not_a_date = Text [] \<and>
   SalaryCurrency row_not_a_date = Absent \<and>
   map_option salary (validateAndParseJob strict_engine sample_now row_not_a_date) =
     Some \<lparr> min_salary = Finite 0, max_salary = Finite 0, currency = ''USD'' \<rparr> \<and>
   SalaryMin sample_row = Text ''50000'' \<and>
   map_option (\<lambda>job. min_salary (salary job))
     (validateAndParseJob strict_engine sample_now sample_row) = Some (Finite 50000)"
proof -
  have cells: "SalaryMin row_not_a_date = Text ''abc''" "SalaryMax row_not_a_date = Text []"
    "SalaryCurrency row_not_a_date = Absent" "SalaryMin sample_row = Text ''50000''"
    by (simp_all add: row_not_a_date_def sample_row_def)
  obtain job where j: "validateAndParseJob strict_engine sample_now row_not_a_date = Some job"
    using row_not_a_date_accepted by blast
  obtain job2 where j2: "validateAndParseJob strict_engine sample_now sample_row = Some job2"
    using sample_row_accepted by blast
  from salary_coercion [OF j] cells
  have "min_salary (salary job) = Finite 0" "max_salary (salary job) = Finite 0"
    "currency (salary job) = ''USD''" by blast+
  then have s1: "salary job = \<lparr> min_salary = Finite 0, max_salary = Finite 0, currency = ''USD'' \<rparr>"
    by simp
  from salary_coercion [OF j2] cells
  have s2: "min_salary (salary job2) = Finite 50000" by blast
  from j j2 cells s1 s2 show ?thesis by simp
qed






text \<open>
  C7 as stated fails for a value outside the four: the validator does not compare the
  Type cell with the enumeration, it passes any non-empty text through.
\<close>

theorem unrecognized_type_counterexample:
  "Type row_invalid_type = Text ''INVALID_TYPE'' \<and> ''INVALID_TYPE'' \<notin> set job_types \<and>
   map_option type_job (validateAndParseJob strict_engine sample_now row_invalid_type) =
     Some ''INVALID_TYPE''"
proof -
  obtain job where j: "validateAndParseJob strict_engine sample_now row_invalid_type = Some job"
    using validateAndParseJob_accepts [of strict_engine sample_now row_invalid_type]
    by (auto simp add: row_invalid_type_def sample_row_def)
  then have "type_job job = ''INVALID_TYPE''"
    by (simp add: validateAndParseJob_Some buildJob_Inr row_invalid_type_def toString_opt_if
        or_default_def)
  with j show ?thesis by (simp add: row_invalid_type_def job_types_def)
qed

text \<open>
  C7, amended. For every row that yields a job, the job's type is \<^verbatim>\<open>FULL_TIME\<close> when the
  Type cell is absent or its text is empty, and the text of the Type cell, verbatim,
  in every other case, whether or not it is one of the four values.
\<close>

theorem type_default_or_verbatim:
  assumes "validateAndParseJob legacy now row = Some job"
  shows "(Type row = Absent \<or> cell_text (Type row) = [] \<longrightarrow> type_job job = ''FULL_TIME'') \<and>
         (Type row \<noteq> Absent \<and> cell_text (Type row) \<noteq> [] \<longrightarrow>
            type_job job = cell_text (Type row))"
proof -
  from assms have "type_job job = or_default (toString_opt (Type row)) ''FULL_TIME''"
    by (simp add: validateAndParseJob_Some buildJob_Inr)
  then show ?thesis by (auto simp add: toString_opt_if or_default_def)
qed

theorem type_default_or_verbatim_witness:
  "Type row_no_type = Absent \<and>
   map_option type_job (validateAndParseJob strict_engine sample_now row_no_type) =
     Some ''FULL_TIME'' \<and>
   Type sample_row \<noteq> Absent \<and> cell_text (Type sample_row) = ''CONTRACT'' \<and>
   map_option type_job (validateAndParseJob strict_engine sample_now sample_row) =
     Some ''CONTRACT''"
proof -
  have cell: "Type row_no_type = Absent" "Type sample_row \<noteq> Absent"
    "cell_text (Type sample_row) = ''CONTRACT''"
    by (simp_all add: row_no_type_def sample_row_def)
  obtain j1 where j1: "validateAndParseJob strict_engine sample_now row_no_type = Some j1"
    using validateAndParseJob_accepts [of strict_engine sample_now row_no_type]
    by (auto simp add: row_no_type_def sample_row_def)
  obtain j2 where j2: "validateAndParseJob strict_engine sample_now sample_row = Some j2"
    using sample_row_accepted by blast
  from type_default_or_verbatim [OF j1] cell have t1: "type_job j1 = ''FULL_TIME''" by blast
  from type_default_or_verbatim [OF j2] cell have t2: "type_job j2 = ''CONTRACT''" by simp
  show ?thesis using cell j1 j2 t1 t2 by simp
qed

lemma js_split_no_sep_id: "c \<notin> set s \<Longrightarrow> js_split c s = [s]"
  by (induction s) auto

lemma js_split_join:
  "segs \<noteq> [] \<Longrightarrow> \<forall>seg \<in> set segs. c \<notin> set seg \<Longrightarrow> js_split c (join_with c segs) = segs"
proof (induction c segs rule: join_with.induct)
  case (1 c)
  then show ?case by simp
next
  case (2 c s)
  then show ?case by (simp add: js_split_no_sep_id)
next
  case (3 c s t ts)
  then show ?case by (simp add: js_split_prefix)
qed

text \<open>
  C8. For every row that yields a job, the requirements are the segments of the
  Requirements text between newlines, without the empty ones and in their order: the text
  is in exactly one way the join by newlines of a non-empty list of newline-free
  segments, and the job's requirements are the non-empty members of that list. The text
  of the lines \<^verbatim>\<open>A\<close>, \<^verbatim>\<open>B\<close>, an empty line and \<^verbatim>\<open>C\<close> gives \<^verbatim>\<open>[A, B, C]\<close>.
\<close>

theorem requirements_split:
  assumes "validateAndParseJob legacy now row = Some job"
  shows "Requirements row \<noteq> Absent \<and>
     (\<exists>segs. segs \<noteq> [] \<and> (\<forall>seg \<in> set segs. newline \<notin> set seg) \<and>
             join_with newline segs = cell_text (Requirements row)) \<and>
     (\<forall>segs. segs \<noteq> [] \<and> (\<forall>seg \<in> set segs. newline \<notin> set seg) \<and>
             join_with newline segs = cell_text (Requirements row) \<longrightarrow>
             requirements job = filter (\<lambda>seg. seg \<noteq> []) segs) \<and>
     (cell_text (Requirements row) = ''A'' @ [newline] @ ''B'' @ [newline, newline] @ ''C'' \<longrightarrow>
        requirements job = [''A'', ''B'', ''C''])"
proof -
  from assms have b: "buildJob legacy now row = Inr job"
    by (simp add: validateAndParseJob_Some)
  then have present: "Requirements row \<noteq> Absent" by (simp add: buildJob_Inr)
  from b have req: "requirements job =
      filter (\<lambda>seg. seg \<noteq> []) (js_split newline (cell_text (Requirements row)))"
    by (simp add: buildJob_Inr)
  have ex: "\<exists>segs. segs \<noteq> [] \<and> (\<forall>seg \<in> set segs. newline \<notin> set seg) \<and>
      join_with newline segs = cell_text (Requirements row)"
    using js_split_not_Nil js_split_no_sep join_js_split by blast
  have uniq: "\<forall>segs. segs \<noteq> [] \<and> (\<forall>seg \<in> set segs. newline \<notin> set seg) \<and>
      join_with newline segs = cell_text (Requirements row) \<longrightarrow>
      requirements job = filter (\<lambda>seg. seg \<noteq> []) segs"
  proof (intro allI impI)
    fix segs
    assume a: "segs \<noteq> [] \<and> (\<forall>seg \<in> set segs. newline \<notin> set seg) \<and>
      join_with newline segs = cell_text (Requirements row)"
    then have "js_split newline (cell_text (Requirements row)) = segs"
      using js_split_join [of segs newline] by metis
    then show "requirements job = filter (\<lambda>seg. seg \<noteq> []) segs" by (simp add: req)
  qed
  have example: "cell_text (Requirements row) = ''A'' @ [newline] @ ''B'' @ [newline, newline] @ ''C'' \<longrightarrow>
      requirements job = [''A'', ''B'', ''C'']"
    by (simp add: req newline_def)
  from present ex uniq example show ?thesis by blast
qed

theorem requirements_split_witness:
  "cell_text (Requirements sample_row) = ''A'' @ [newline] @ ''B'' @ [newline, newline] @ ''C'' \<and>
   map_option requirements (validateAndParseJob strict_engine sample_now sample_row) =
     Some [''A'', ''B'', ''C'']"
proof -
  have cell: "cell_text (Requirements sample_row) =
      ''A'' @ [newline] @ ''B'' @ [newline, newline] @ ''C''"
    by (simp add: sample_row_def)
  obtain job where j: "validateAndParseJob strict_engine sample_now sample_row = Some job"
    using sample_row_accepted by blast
  from requirements_split [OF j] cell have "requirements job = [''A'', ''B'', ''C'']"
    by blast
  with j cell show ?thesis by simp
qed






end
